theory Spec2Isabelle
  imports Main "HOL-Library.AList"
begin

section \<open>Text: Python \<open>str\<close> and \<open>bytes\<close>\<close>

text \<open>
  \<open>mqtt_forwarder.py\<close> receives the payload of a message as \<open>bytes\<close> and turns it
  into a \<open>str\<close> with \<open>msg.payload.decode('utf-8').strip()\<close>. A \<open>bytes\<close> object is a
  \<open>string\<close> here (a \<open>char\<close> is one byte); a Python \<open>str\<close> is the list of its Unicode
  code points, so that \<open>length\<close> and indexing count what Python counts.
\<close>

type_synonym ustr = "nat list"

definition ascii :: "string \<Rightarrow> ustr" where
  "ascii s = map of_char s"

text \<open>\<open>str.startswith(p)\<close>.\<close>

definition startswith :: "ustr \<Rightarrow> ustr \<Rightarrow> bool" where
  "startswith s p = (take (length p) s = p)"

text \<open>
  \<open>str.isspace\<close> for one code point, which is what \<open>str.strip()\<close> without arguments
  removes at both ends: the code points CPython lists as whitespace.
\<close>

definition isspace :: "nat \<Rightarrow> bool" where
  "isspace c = ((0x09 \<le> c \<and> c \<le> 0x0D) \<or> (0x1C \<le> c \<and> c \<le> 0x20) \<or> c = 0x85 \<or> c = 0xA0
     \<or> c = 0x1680 \<or> (0x2000 \<le> c \<and> c \<le> 0x200A) \<or> c = 0x2028 \<or> c = 0x2029
     \<or> c = 0x202F \<or> c = 0x205F \<or> c = 0x3000)"

definition strip :: "ustr \<Rightarrow> ustr" where
  "strip s = rev (dropWhile isspace (rev (dropWhile isspace s)))"

text \<open>
  \<open>s.replace(old, new)\<close>: every occurrence of \<open>old\<close> is replaced, scanning from the left
  and continuing after each occurrence (occurrences do not overlap). With an empty
  \<open>old\<close>, Python puts \<open>new\<close> before every code point and at the end.
\<close>

function str_replace :: "ustr \<Rightarrow> ustr \<Rightarrow> ustr \<Rightarrow> ustr" where
  "str_replace s old new =
     (if old = [] then new @ concat (map (\<lambda>c. c # new) s)
      else if s = [] then []
      else if startswith s old then new @ str_replace (drop (length old) s) old new
      else hd s # str_replace (tl s) old new)"
  by pat_completeness auto
termination
  by (relation "measure (\<lambda>(s, old, new). length s)") auto

declare str_replace.simps [simp del]

text \<open>
  \<open>bytes.decode('utf-8')\<close> in strict mode: \<open>None\<close> is \<open>UnicodeDecodeError\<close>. The
  decoder accepts the well-formed sequences of the Unicode standard only: no continuation
  byte on its own, no overlong form, no surrogate, nothing above U+10FFFF.
\<close>

definition cont :: "char \<Rightarrow> bool" where
  "cont b = (0x80 \<le> (of_char b :: nat) \<and> (of_char b :: nat) \<le> 0xBF)"

definition low6 :: "char \<Rightarrow> nat" where
  "low6 b = of_char b mod 64"

fun decode_utf8 :: "string \<Rightarrow> ustr option" where
  "decode_utf8 [] = Some []"
| "decode_utf8 (b # bs) =
     (let n = (of_char b :: nat) in
      if n < 0x80 then map_option (Cons n) (decode_utf8 bs)
      else if 0xC2 \<le> n \<and> n \<le> 0xDF then
        (case bs of
           b1 # r \<Rightarrow>
             if cont b1
             then map_option (Cons ((n mod 32) * 64 + low6 b1)) (decode_utf8 r)
             else None
         | _ \<Rightarrow> None)
      else if 0xE0 \<le> n \<and> n \<le> 0xEF then
        (case bs of
           b1 # b2 # r \<Rightarrow>
             if cont b1 \<and> cont b2
                \<and> (n = 0xE0 \<longrightarrow> 0xA0 \<le> (of_char b1 :: nat))
                \<and> (n = 0xED \<longrightarrow> (of_char b1 :: nat) \<le> 0x9F)
             then map_option (Cons ((n mod 16) * 4096 + low6 b1 * 64 + low6 b2)) (decode_utf8 r)
             else None
         | _ \<Rightarrow> None)
      else if 0xF0 \<le> n \<and> n \<le> 0xF4 then
        (case bs of
           b1 # b2 # b3 # r \<Rightarrow>
             if cont b1 \<and> cont b2 \<and> cont b3
                \<and> (n = 0xF0 \<longrightarrow> 0x90 \<le> (of_char b1 :: nat))
                \<and> (n = 0xF4 \<longrightarrow> (of_char b1 :: nat) \<le> 0x8F)
             then map_option
                    (Cons ((n mod 8) * 262144 + low6 b1 * 4096 + low6 b2 * 64 + low6 b3))
                    (decode_utf8 r)
             else None
         | _ \<Rightarrow> None)
      else None)"


section \<open>JSON values: what \<open>json.loads\<close> returns\<close>

text \<open>
  A Python \<open>float\<close> is kept as the decimal literal it was read from, \<open>Finite m e\<close> for
  \<open>m * 10 ^ e\<close>, or as one of the three constants the \<open>json\<close> module reads besides
  numbers. The only operation the forwarder applies to a float is its truth value:
  \<open>float(text)\<close> rounds to the nearest binary64 value, ties to even, so the result is
  zero exactly when the literal's magnitude is at most \<open>2 ^ -1075\<close>, half the least
  positive binary64 value.
\<close>

datatype pyfloat = Finite int int | Infinity bool | NaN

fun float_nonzero :: "pyfloat \<Rightarrow> bool" where
  "float_nonzero (Finite m e) =
     (if 0 \<le> e then m \<noteq> 0 else 10 ^ nat (- e) < \<bar>m\<bar> * 2 ^ 1075)"
| "float_nonzero (Infinity neg) = True"
| "float_nonzero NaN = True"

text \<open>
  The objects \<open>json.loads\<close> builds. A \<open>dict\<close> is the list of its items in insertion
  order, with distinct keys.
\<close>

datatype json =
    JNull
  | JBool bool
  | JInt int
  | JFloat pyfloat
  | JStr ustr
  | JArr "json list"
  | JObj "(ustr \<times> json) list"

text \<open>\<open>bool(x)\<close>, the test behind \<open>not x\<close>.\<close>

fun truthy :: "json \<Rightarrow> bool" where
  "truthy JNull = False"
| "truthy (JBool b) = b"
| "truthy (JInt i) = (i \<noteq> 0)"
| "truthy (JFloat f) = float_nonzero f"
| "truthy (JStr s) = (s \<noteq> [])"
| "truthy (JArr xs) = (xs \<noteq> [])"
| "truthy (JObj kvs) = (kvs \<noteq> [])"

section \<open>\<open>json.loads\<close>\<close>

text \<open>
  The decoder of CPython's \<open>json\<close> module with its default settings, on a \<open>str\<close>:
  a lexer for the scalars and the punctuation, and a stack machine for arrays and
  objects. \<open>None\<close> is \<open>json.JSONDecodeError\<close>. Two limits of the interpreter are not
  part of the model: the recursion limit on nesting and the limit on the number of
  digits of an integer literal.
\<close>

datatype token = TLBrace | TRBrace | TLBracket | TRBracket | TColon | TComma | TAtom json

definition isdigit :: "nat \<Rightarrow> bool" where
  "isdigit c = (0x30 \<le> c \<and> c \<le> 0x39)"

definition digits_val :: "ustr \<Rightarrow> nat" where
  "digits_val ds = foldl (\<lambda>a d. 10 * a + (d - 0x30)) 0 ds"

definition hexval :: "nat \<Rightarrow> nat option" where
  "hexval c =
     (if 0x30 \<le> c \<and> c \<le> 0x39 then Some (c - 0x30)
      else if 0x41 \<le> c \<and> c \<le> 0x46 then Some (c - 0x41 + 10)
      else if 0x61 \<le> c \<and> c \<le> 0x66 then Some (c - 0x61 + 10)
      else None)"

text \<open>The four hexadecimal digits of a \<open>\uXXXX\<close> escape.\<close>

definition hex4 :: "ustr \<Rightarrow> nat option" where
  "hex4 s =
     (case map hexval (take 4 s) of
        [Some a, Some b, Some c, Some d] \<Rightarrow> Some (((a * 16 + b) * 16 + c) * 16 + d)
      | _ \<Rightarrow> None)"

text \<open>The one-letter escapes: \<open>\"\<close>, \<open>\\\<close>, \<open>\/\<close>, \<open>\b\<close>, \<open>\f\<close>, \<open>\n\<close>, \<open>\r\<close>, \<open>\t\<close>.\<close>

definition unescape :: "nat \<Rightarrow> nat option" where
  "unescape e =
     (if e = 0x22 \<or> e = 0x5C \<or> e = 0x2F then Some e
      else if e = 0x62 then Some 0x08
      else if e = 0x66 then Some 0x0C
      else if e = 0x6E then Some 0x0A
      else if e = 0x72 then Some 0x0D
      else if e = 0x74 then Some 0x09
      else None)"

text \<open>
  \<open>scanstring\<close> in strict mode, from the code point after the opening quote: the string
  read (collected in reverse in \<open>acc\<close>) and the text after the closing quote. A control
  character below U+0020 is refused. A \<open>\uXXXX\<close> escape of a high surrogate followed by
  one of a low surrogate is one code point; any other surrogate stays as it is.
\<close>

function scanstring :: "ustr \<Rightarrow> ustr \<Rightarrow> (ustr \<times> ustr) option" where
  "scanstring acc s =
     (if s = [] then None
      else if hd s = 0x22 then Some (rev acc, tl s)
      else if hd s = 0x5C then
        (if tl s = [] then None
         else if hd (tl s) = 0x75 then
           (case hex4 (drop 2 s) of
              None \<Rightarrow> None
            | Some u \<Rightarrow>
                if 0xD800 \<le> u \<and> u \<le> 0xDBFF \<and> take 2 (drop 6 s) = [0x5C, 0x75] then
                  (case hex4 (drop 8 s) of
                     None \<Rightarrow> None
                   | Some u2 \<Rightarrow>
                       if 0xDC00 \<le> u2 \<and> u2 \<le> 0xDFFF
                       then scanstring
                              ((0x10000 + (u - 0xD800) * 1024 + (u2 - 0xDC00)) # acc)
                              (drop 12 s)
                       else scanstring (u # acc) (drop 6 s))
                else scanstring (u # acc) (drop 6 s))
         else
           (case unescape (hd (tl s)) of
              None \<Rightarrow> None
            | Some c \<Rightarrow> scanstring (c # acc) (drop 2 s)))
      else if hd s < 0x20 then None
      else scanstring (hd s # acc) (tl s))"
  by pat_completeness auto
termination
  by (relation "measure (\<lambda>(acc, s). length s)") auto

declare scanstring.simps [simp del]

text \<open>
  The exponent of a number: \<open>e\<close> or \<open>E\<close>, an optional sign, at least one digit. With no
  digit nothing is consumed.
\<close>

definition scan_exponent :: "ustr \<Rightarrow> (int \<times> ustr) option" where
  "scan_exponent s =
     (if s \<noteq> [] \<and> (hd s = 0x65 \<or> hd s = 0x45) then
        (let r = tl s;
             neg = (r \<noteq> [] \<and> hd r = 0x2D);
             r1 = (if r \<noteq> [] \<and> (hd r = 0x2D \<or> hd r = 0x2B) then tl r else r);
             ds = takeWhile isdigit r1
         in if ds = [] then None
            else Some ((if neg then - int (digits_val ds) else int (digits_val ds)),
                       dropWhile isdigit r1))
      else None)"

text \<open>
  A number: an optional minus, then \<open>0\<close> or a digit string without leading zero, an
  optional fraction (a dot and at least one digit) and an optional exponent. Without
  fraction and exponent it is an \<open>int\<close>, otherwise a \<open>float\<close>.
\<close>

definition scan_number :: "ustr \<Rightarrow> (json \<times> ustr) option" where
  "scan_number s =
     (let neg = (s \<noteq> [] \<and> hd s = 0x2D);
          s1 = (if neg then tl s else s)
      in if s1 = [] \<or> \<not> isdigit (hd s1) then None
         else
           (let ip = (if hd s1 = 0x30 then [0x30] else takeWhile isdigit s1);
                s2 = drop (length ip) s1;
                has_frac = (2 \<le> length s2 \<and> hd s2 = 0x2E \<and> isdigit (hd (tl s2)));
                fp = (if has_frac then takeWhile isdigit (tl s2) else []);
                s3 = (if has_frac then drop (Suc (length fp)) s2 else s2);
                ex = scan_exponent s3;
                s4 = (case ex of None \<Rightarrow> s3 | Some (e, r) \<Rightarrow> r);
                m = int (digits_val (ip @ fp));
                sm = (if neg then - m else m)
            in if \<not> has_frac \<and> ex = None then Some (JInt sm, s4)
               else Some (JFloat (Finite sm
                            ((case ex of None \<Rightarrow> 0 | Some (e, r) \<Rightarrow> e) - int (length fp))), s4)))"

text \<open>
  One value that is not a container, or one punctuation mark, at the front of a text
  that does not start with white space; in the order of the scanner's tests.
\<close>

definition next_token :: "ustr \<Rightarrow> (token \<times> ustr) option" where
  "next_token s =
     (if s = [] then None
      else if hd s = 0x22 then
        (case scanstring [] (tl s) of
           None \<Rightarrow> None
         | Some (str, r) \<Rightarrow> Some (TAtom (JStr str), r))
      else if hd s = 0x7B then Some (TLBrace, tl s)
      else if hd s = 0x7D then Some (TRBrace, tl s)
      else if hd s = 0x5B then Some (TLBracket, tl s)
      else if hd s = 0x5D then Some (TRBracket, tl s)
      else if hd s = 0x3A then Some (TColon, tl s)
      else if hd s = 0x2C then Some (TComma, tl s)
      else if startswith s (ascii ''null'') then Some (TAtom JNull, drop 4 s)
      else if startswith s (ascii ''true'') then Some (TAtom (JBool True), drop 4 s)
      else if startswith s (ascii ''false'') then Some (TAtom (JBool False), drop 5 s)
      else if startswith s (ascii ''NaN'') then Some (TAtom (JFloat NaN), drop 3 s)
      else if startswith s (ascii ''Infinity'')
        then Some (TAtom (JFloat (Infinity False)), drop 8 s)
      else if startswith s (ascii ''-Infinity'')
        then Some (TAtom (JFloat (Infinity True)), drop 9 s)
      else
        (case scan_number s of
           None \<Rightarrow> None
         | Some (v, r) \<Rightarrow> Some (TAtom v, r)))"

text \<open>The white space of JSON: space, tab, line feed, carriage return.\<close>

definition json_ws :: "nat \<Rightarrow> bool" where
  "json_ws c = (c = 0x20 \<or> c = 0x09 \<or> c = 0x0A \<or> c = 0x0D)"

text \<open>
  The tokens of a text. White space between tokens is skipped; a text that does not
  continue with a token has no tokenisation.
\<close>

lemma scanstring_shorter: "scanstring acc s = Some (str, r) \<Longrightarrow> length r < length s"
proof (induction "length s" arbitrary: acc s rule: less_induct)
  case less
  have A: "length r < length s"
    if "scanstring acc' (drop k s) = Some (str, r)" "s \<noteq> []" "0 < k" for acc' k
  proof -
    have "length (drop k s) < length s" using that by simp
    from less.hyps [OF this that(1)] show ?thesis by simp
  qed
  have B: "length r < length s"
    if "scanstring acc' (tl s) = Some (str, r)" "s \<noteq> []" for acc'
    using A [of acc' 1] that by (simp add: drop_Suc)
  from less.prems show ?case
    by (subst (asm) scanstring.simps)
       (auto split: if_splits option.splits dest: A B)
qed

lemma dropWhile_shorter: "length (dropWhile P xs) \<le> length xs"
  by (induction xs) auto

lemma scan_exponent_shorter: "scan_exponent s = Some (e, r) \<Longrightarrow> length r \<le> length s"
  using dropWhile_shorter [of isdigit "tl s"] dropWhile_shorter [of isdigit "tl (tl s)"]
  by (auto simp: scan_exponent_def Let_def split: if_splits)

lemma scan_number_shorter: "scan_number s = Some (v, r) \<Longrightarrow> length r < length s"
proof -
  assume a: "scan_number s = Some (v, r)"
  define s1 where "s1 = (if s \<noteq> [] \<and> hd s = 0x2D then tl s else s)"
  define ip where "ip = (if hd s1 = 0x30 then [0x30] else takeWhile isdigit s1)"
  define s2 where "s2 = drop (length ip) s1"
  define has_frac where "has_frac = (2 \<le> length s2 \<and> hd s2 = 0x2E \<and> isdigit (hd (tl s2)))"
  define fp where "fp = (if has_frac then takeWhile isdigit (tl s2) else [])"
  define s3 where "s3 = (if has_frac then drop (Suc (length fp)) s2 else s2)"
  from a have ne: "s1 \<noteq> []" and dg: "isdigit (hd s1)"
    by (auto simp: scan_number_def Let_def s1_def split: if_splits)
  from a have r: "r = (case scan_exponent s3 of None \<Rightarrow> s3 | Some (e, r') \<Rightarrow> r')"
    unfolding scan_number_def Let_def s1_def [symmetric]
    unfolding ip_def [symmetric]
    unfolding s2_def [symmetric]
    unfolding has_frac_def [symmetric]
    unfolding fp_def [symmetric]
    unfolding s3_def [symmetric]
    using ne dg by (auto split: if_splits)
  have "length r \<le> length s3"
    unfolding r by (auto split: option.splits dest: scan_exponent_shorter)
  moreover have "length s3 \<le> length s2"
    by (simp add: s3_def)
  moreover have "ip \<noteq> []"
    using ne dg by (cases s1) (auto simp: ip_def)
  then have "length s2 < length s1"
    using ne by (cases ip) (auto simp: s2_def)
  moreover have "length s1 \<le> length s"
    by (simp add: s1_def)
  ultimately show ?thesis by linarith
qed

lemma next_token_shorter: "next_token s = Some (t, r) \<Longrightarrow> length r < length s"
  by (auto simp: next_token_def startswith_def ascii_def
           split: if_splits option.splits
           dest: scanstring_shorter scan_number_shorter)

function tokens :: "ustr \<Rightarrow> token list option" where
  "tokens s =
     (let s' = dropWhile json_ws s
      in if s' = [] then Some []
         else (case next_token s' of
                 None \<Rightarrow> None
               | Some (t, r) \<Rightarrow> map_option (Cons t) (tokens r)))"
  by pat_completeness auto
termination
proof (relation "measure length")
  fix s s' :: ustr and x2 x y
  assume "s' = dropWhile json_ws s" and "next_token s' = Some x2" and "(x, y) = x2"
  then have "length y < length s'"
    using next_token_shorter [of s' x y] by simp
  moreover have "length (dropWhile json_ws s) \<le> length s"
    by (rule dropWhile_shorter)
  ultimately show "(y, s) \<in> measure length"
    using \<open>s' = dropWhile json_ws s\<close> by simp
qed simp

declare tokens.simps [simp del]

text \<open>
  Arrays and objects. The machine keeps the containers that are open, innermost first:
  an array with its elements so far, an object with its items so far, a key waiting for
  its value, and at the bottom the finished document. Storing an item is
  \<open>d[key] = value\<close>: a key that is there already keeps its place and takes the new
  value.
\<close>

datatype frame = FArr "json list" | FObj "(ustr \<times> json) list" | FKey ustr | FTop json

datatype mode = Value | ValueOrClose | KeyOrClose | Key | Colon | After

fun deliver :: "json \<Rightarrow> frame list \<Rightarrow> (mode \<times> frame list) option" where
  "deliver v [] = Some (After, [FTop v])"
| "deliver v (FArr xs # st) = Some (After, FArr (xs @ [v]) # st)"
| "deliver v (FKey k # FObj kvs # st) = Some (After, FObj (AList.update k v kvs) # st)"
| "deliver v st = None"

fun begin_value :: "token \<Rightarrow> frame list \<Rightarrow> (mode \<times> frame list) option" where
  "begin_value (TAtom v) st = deliver v st"
| "begin_value TLBracket st = Some (ValueOrClose, FArr [] # st)"
| "begin_value TLBrace st = Some (KeyOrClose, FObj [] # st)"
| "begin_value t st = None"

fun begin_key :: "token \<Rightarrow> frame list \<Rightarrow> (mode \<times> frame list) option" where
  "begin_key (TAtom (JStr k)) st = Some (Colon, FKey k # st)"
| "begin_key t st = None"

fun close_array :: "frame list \<Rightarrow> (mode \<times> frame list) option" where
  "close_array (FArr xs # st) = deliver (JArr xs) st"
| "close_array st = None"

fun close_object :: "frame list \<Rightarrow> (mode \<times> frame list) option" where
  "close_object (FObj kvs # st) = deliver (JObj kvs) st"
| "close_object st = None"

fun after_value :: "token \<Rightarrow> frame list \<Rightarrow> (mode \<times> frame list) option" where
  "after_value TComma (FArr xs # st) = Some (Value, FArr xs # st)"
| "after_value TComma (FObj kvs # st) = Some (Key, FObj kvs # st)"
| "after_value TRBracket st = close_array st"
| "after_value TRBrace st = close_object st"
| "after_value t st = None"

fun step :: "mode \<Rightarrow> frame list \<Rightarrow> token \<Rightarrow> (mode \<times> frame list) option" where
  "step Value st t = begin_value t st"
| "step ValueOrClose st t = (case t of TRBracket \<Rightarrow> close_array st | _ \<Rightarrow> begin_value t st)"
| "step KeyOrClose st t = (case t of TRBrace \<Rightarrow> close_object st | _ \<Rightarrow> begin_key t st)"
| "step Key st t = begin_key t st"
| "step Colon st t = (case t of TColon \<Rightarrow> Some (Value, st) | _ \<Rightarrow> None)"
| "step After st t = after_value t st"

fun run :: "mode \<Rightarrow> frame list \<Rightarrow> token list \<Rightarrow> json option" where
  "run m st [] = (case (m, st) of (After, [FTop v]) \<Rightarrow> Some v | _ \<Rightarrow> None)"
| "run m st (t # ts) =
     (case step m st t of None \<Rightarrow> None | Some (m', st') \<Rightarrow> run m' st' ts)"

definition json_loads :: "ustr \<Rightarrow> json option" where
  "json_loads s = (case tokens s of None \<Rightarrow> None | Some ts \<Rightarrow> run Value [] ts)"


section \<open>The forwarder\<close>

text \<open>
  \<open>class MQTTForwarder\<close>. Of the configuration the handlers read the device list and
  \<open>config['forward']['topic']\<close>; a missing key is \<open>None\<close> and raises \<open>KeyError\<close>
  when it is read. \<open>client\<close> is \<open>None\<close> until \<open>setup_client\<close> has run.
\<close>

datatype mqtt_client = Client ustr

record config =
  devices :: "ustr list"
  forward_topic :: "ustr option"

record forwarder =
  config :: config
  client :: "mqtt_client option"
  is_running :: bool
  is_connected :: bool

record message =
  topic :: ustr
  payload :: string

text \<open>
  What a handler does to the outside: lines written to the log, topics subscribed, and
  messages published. A published message is the value handed to
  \<open>json.dumps(data, ensure_ascii=False)\<close>, whose text goes on the wire.
\<close>

datatype exn = UnicodeDecodeError | JSONDecodeError | KeyError | TypeError

datatype level = INFO | WARNING | ERROR

datatype logline =
    Connected
  | SubscribedTo ustr
  | ConnectFailed int
  | Disconnected int
  | EmptyMessage
  | Received ustr ustr
  | EmptyJson
  | Forwarded json ustr
  | ForwardFailed int
  | NotConnected
  | MessageError exn
  | ForwardError exn

datatype event = Log level logline | Subscribe ustr | Publish ustr json

definition published :: "event list \<Rightarrow> (ustr \<times> json) list" where
  "published evs = concat (map (\<lambda>e. case e of Publish t d \<Rightarrow> [(t, d)] | _ \<Rightarrow> []) evs)"


definition MQTT_ERR_SUCCESS :: int where
  "MQTT_ERR_SUCCESS = 0"

definition status_prefix :: ustr where
  "status_prefix = ascii ''status/AMT''"

text \<open>\<open>on_connect\<close> (lines 49--61) and \<open>on_disconnect\<close> (lines 63--66).\<close>

definition on_connect :: "forwarder \<Rightarrow> int \<Rightarrow> forwarder \<times> event list" where
  "on_connect self rc =
     (if rc = 0 then
        (self\<lparr>is_connected := True\<rparr>,
         Log INFO Connected #
         concat (map (\<lambda>device_id.
                        [Subscribe (status_prefix @ device_id),
                         Log INFO (SubscribedTo (status_prefix @ device_id))])
                     (devices (config self))))
      else (self\<lparr>is_connected := False\<rparr>, [Log ERROR (ConnectFailed rc)]))"

definition on_disconnect :: "forwarder \<Rightarrow> int \<Rightarrow> forwarder \<times> event list" where
  "on_disconnect self rc = (self\<lparr>is_connected := False\<rparr>, [Log WARNING (Disconnected rc)])"

text \<open>\<open>is_json\<close> (lines 112--118): \<open>json.loads\<close> does not raise.\<close>

definition is_json :: "ustr \<Rightarrow> bool" where
  "is_json text = (json_loads text \<noteq> None)"

text \<open>
  \<open>convert_json_format\<close> (lines 120--133): a \<open>dict\<close> becomes the list of its items, each
  as \<open>{"name": key, "value": value}\<close>, in the order of \<open>data.items()\<close>; anything else is
  returned as it is.
\<close>

fun convert_json_format :: "json \<Rightarrow> json" where
  "convert_json_format (JObj items) =
     JArr (map (\<lambda>(key, value). JObj [(ascii ''name'', JStr key), (ascii ''value'', value)])
               items)"
| "convert_json_format data = data"

text \<open>\<open>x[key]\<close> on a value.\<close>

fun subscript :: "json \<Rightarrow> ustr \<Rightarrow> exn + json" where
  "subscript (JObj items) key =
     (case map_of items key of None \<Rightarrow> Inl KeyError | Some v \<Rightarrow> Inr v)"
| "subscript data key = Inl TypeError"

text \<open>
  \<open>forward_message\<close> (lines 135--150). \<open>rc\<close> is the result code that
  \<open>self.client.publish\<close> returns for this message. Every exception inside is caught
  and logged.
\<close>

definition forward_message :: "forwarder \<Rightarrow> json \<Rightarrow> int \<Rightarrow> event list" where
  "forward_message self data rc =
     (if client self \<noteq> None \<and> is_connected self then
        (case forward_topic (config self) of
           None \<Rightarrow> [Log ERROR (ForwardError KeyError)]
         | Some t \<Rightarrow>
             Publish t data #
             (if rc = MQTT_ERR_SUCCESS then
                (case subscript data (ascii ''SN'') of
                   Inl e \<Rightarrow> [Log ERROR (ForwardError e)]
                 | Inr sn \<Rightarrow> [Log INFO (Forwarded sn t)])
              else [Log ERROR (ForwardFailed rc)]))
      else [Log ERROR NotConnected])"

text \<open>
  The body of the \<open>try\<close> in \<open>on_message\<close>, lines 71--104, up to the call of
  \<open>forward_message\<close>: the lines it logs and how it ends. \<open>now\<close> is
  \<open>int(time.time() * 1000)\<close> at line 103.
\<close>

datatype skip_reason = EmptyPayload | EmptyJsonPayload

datatype outcome =
    Raised exn
  | Skip skip_reason
  | Unmatched
  | Forward json


definition is_dict :: "json \<Rightarrow> bool" where
  "is_dict v = (case v of JObj items \<Rightarrow> True | _ \<Rightarrow> False)"

definition is_list :: "json \<Rightarrow> bool" where
  "is_list v = (case v of JArr xs \<Rightarrow> True | _ \<Rightarrow> False)"

text \<open>Line 97: a list is used as it is, anything else becomes a list of one element.\<close>

definition data_array :: "json \<Rightarrow> json" where
  "data_array data_content = (if is_list data_content then data_content else JArr [data_content])"

definition len :: "json \<Rightarrow> nat" where
  "len v = (case v of JObj items \<Rightarrow> length items | JArr xs \<Rightarrow> length xs
                    | JStr s \<Rightarrow> length s | _ \<Rightarrow> 0)"

definition forward_data :: "json \<Rightarrow> ustr \<Rightarrow> int \<Rightarrow> json" where
  "forward_data data_content device_id now =
     JObj [(ascii ''data'', data_array data_content),
           (ascii ''SN'', JStr (ascii ''AMT'' @ device_id)),
           (ascii ''Type'', JStr (ascii ''park'')),
           (ascii ''flexem_timestamp'', JInt now)]"

definition on_message_try :: "ustr \<Rightarrow> string \<Rightarrow> int \<Rightarrow> event list \<times> outcome" where
  "on_message_try tpc raw now =
     (case decode_utf8 raw of
        None \<Rightarrow> ([], Raised UnicodeDecodeError)
      | Some text \<Rightarrow>
          (let payload = strip text in
           if payload = [] then ([Log INFO EmptyMessage], Skip EmptyPayload)
           else if startswith tpc status_prefix then
             (let device_id = str_replace tpc status_prefix [];
                  received = Log INFO (Received device_id payload)
              in if is_json payload then
                   (case json_loads payload of
                      None \<Rightarrow> ([received], Raised JSONDecodeError)
                    | Some parsed_data \<Rightarrow>
                        if \<not> truthy parsed_data
                           \<or> (is_dict parsed_data \<and> len parsed_data = 0)
                        then ([received, Log INFO EmptyJson], Skip EmptyJsonPayload)
                        else ([received],
                              Forward (forward_data (convert_json_format parsed_data)
                                         device_id now)))
                 else ([received], Forward (forward_data (JStr payload) device_id now)))
           else ([], Unmatched)))"

text \<open>
  The decision of the handler for a topic and a payload: nothing to forward, or the
  message handed to \<open>forward_message\<close>.
\<close>

definition decide :: "ustr \<Rightarrow> string \<Rightarrow> int \<Rightarrow> outcome" where
  "decide tpc raw now = snd (on_message_try tpc raw now)"

text \<open>
  \<open>on_message\<close> (lines 68--110): the body, then at line 107 the forwarding; an exception
  raised in the body is caught at line 109 and logged as an error. The handler assigns
  to no attribute of \<open>self\<close>.
\<close>

definition on_message :: "forwarder \<Rightarrow> message \<Rightarrow> int \<Rightarrow> int \<Rightarrow> forwarder \<times> event list" where
  "on_message self msg now rc =
     (case on_message_try (topic msg) (payload msg) now of
        (logs, Raised e) \<Rightarrow> (self, logs @ [Log ERROR (MessageError e)])
      | (logs, Forward data) \<Rightarrow> (self, logs @ forward_message self data rc)
      | (logs, _) \<Rightarrow> (self, logs))"

text \<open>A field of the message that is forwarded, if one is.\<close>

fun envelope_field :: "string \<Rightarrow> outcome \<Rightarrow> json option" where
  "envelope_field name (Forward (JObj items)) = map_of items (ascii name)"
| "envelope_field name out = None"

text \<open>A forwarder that is set up and connected, for the examples.\<close>

definition example_forwarder :: forwarder where
  "example_forwarder =
     \<lparr>config = \<lparr>devices = [ascii ''12345678901234''],
                 forward_topic = Some (ascii ''park/data'')\<rparr>,
      client = Some (Client (ascii ''mqtt_forwarder'')),
      is_running = True,
      is_connected = True\<rparr>"

section \<open>Evaluation\<close>

text \<open>The equations that compute the text functions, the decoder and the handler.\<close>

lemmas text_eval = ascii_def startswith_def strip_def isspace_def status_prefix_def
  cont_def low6_def str_replace.simps

lemmas loads_eval = json_loads_def tokens.simps next_token_def scanstring.simps
  scan_number_def scan_exponent_def isdigit_def digits_val_def json_ws_def hexval_def
  hex4_def unescape_def Let_def

lemmas handler_eval = decide_def on_message_try_def is_json_def forward_data_def
  data_array_def is_dict_def is_list_def len_def

section \<open>Properties of the handler\<close>


lemma strip_all_space: "\<forall>c\<in>set s. isspace c \<Longrightarrow> strip s = []"
  by (auto simp: strip_def dest: set_dropWhileD)

lemma empty_dict_falsy: "is_dict v \<and> len v = 0 \<Longrightarrow> \<not> truthy v"
  by (cases v) (simp_all add: is_dict_def len_def)

text \<open>
  On a device topic, with a payload that decodes and is not empty after trimming, the
  handler depends on \<open>json.loads\<close> of the trimmed text only.
\<close>

lemma decide_device_topic:
  assumes "startswith tpc status_prefix" and "decode_utf8 raw = Some text"
    and "strip text \<noteq> []"
  shows "decide tpc raw now =
     (case json_loads (strip text) of
        None \<Rightarrow> Forward (forward_data (JStr (strip text)) (str_replace tpc status_prefix []) now)
      | Some v \<Rightarrow>
          if truthy v
          then Forward (forward_data (convert_json_format v) (str_replace tpc status_prefix []) now)
          else Skip EmptyJsonPayload)"
proof (cases "json_loads (strip text)")
  case None
  with assms show ?thesis
    by (simp add: decide_def on_message_try_def is_json_def Let_def)
next
  case (Some v)
  with assms empty_dict_falsy [of v] show ?thesis
    by (auto simp: decide_def on_message_try_def is_json_def Let_def)
qed

lemma decide_empty:
  "decode_utf8 raw = Some text \<Longrightarrow> strip text = [] \<Longrightarrow> decide tpc raw now = Skip EmptyPayload"
  by (simp add: decide_def on_message_try_def)

lemma decide_other_topic:
  "\<not> startswith tpc status_prefix \<Longrightarrow> decode_utf8 raw = Some text \<Longrightarrow> strip text \<noteq> []
   \<Longrightarrow> on_message_try tpc raw now = ([], Unmatched)"
  by (simp add: on_message_try_def)


lemma envelope_SN:
  "envelope_field ''SN'' (Forward (forward_data c d now)) = Some (JStr (ascii ''AMT'' @ d))"
  by (simp add: forward_data_def ascii_def)

text \<open>Nothing is published unless the handler decides to forward.\<close>

lemma published_on_message:
  "published (snd (on_message self msg now rc)) =
     (case decide (topic msg) (payload msg) now of
        Forward d \<Rightarrow> published (forward_message self d rc)
      | _ \<Rightarrow> [])"
proof -
  obtain logs out where b: "on_message_try (topic msg) (payload msg) now = (logs, out)"
    by (cases "on_message_try (topic msg) (payload msg) now")
  have c: "published logs = []"
    using b by (auto simp: on_message_try_def published_def Let_def
                     split: option.splits if_splits)
  have d: "published (xs @ ys) = published xs @ published ys" for xs ys
    by (simp add: published_def)
  from b c show ?thesis
    by (cases out) (simp_all add: on_message_def decide_def d, simp_all add: published_def)
qed

section \<open>The claims\<close>

text \<open>
  C1. The claim: on a device topic the payloads \<open>0\<close> and \<open>false\<close> are forwarded, with
  data \<open>[0]\<close> and \<open>[false]\<close>. The handler skips both: line 87 tests \<open>not parsed_data\<close>,
  and \<open>0\<close> and \<open>False\<close> are falsy, although the comment at line 84 and the log line at
  line 88 speak of an empty JSON message only.
\<close>

theorem zero_and_false_are_skipped:
  "decide (ascii ''status/AMT12345678901234'') ''0'' now = Skip EmptyJsonPayload
   \<and> decide (ascii ''status/AMT12345678901234'') ''false'' now = Skip EmptyJsonPayload"
  by (simp add: handler_eval loads_eval text_eval)




text \<open>
  C3, as the code has it. On a device topic the payload \<open>[]\<close> is skipped: the parsed
  empty list is falsy at line 87, as the empty object is.
\<close>

theorem empty_array_payload_skipped:
  assumes "startswith tpc status_prefix" and "decode_utf8 raw = Some text"
    and "strip text = ascii ''[]''"
  shows "decide tpc raw now = Skip EmptyJsonPayload"
proof -
  have p: "json_loads (ascii ''[]'') = Some (JArr [])"
    by (simp add: loads_eval text_eval)
  have ne: "strip text \<noteq> []"
    by (simp add: assms(3) ascii_def)
  from decide_device_topic [OF assms(1,2) ne, of now] p show ?thesis
    by (simp add: assms(3))
qed

theorem empty_array_payload_skipped_witness:
  "decide (ascii ''status/AMT12345678901234'') '' [] '' 1700000000000 = Skip EmptyJsonPayload"
proof -
  have t: "startswith (ascii ''status/AMT12345678901234'') status_prefix"
    by (simp add: text_eval)
  have d: "decode_utf8 '' [] '' = Some (ascii '' [] '')"
    by (simp add: text_eval)
  have s: "strip (ascii '' [] '') = ascii ''[]''"
    by (simp add: text_eval)
  from empty_array_payload_skipped [OF t d s] show ?thesis .
qed

text \<open>
  C3, as the claim states it, fails: for the payload \<open>[]\<close> nothing is forwarded, so
  there is no data field \<open>[[]]\<close>.
\<close>

theorem empty_array_not_forwarded:
  "decide (ascii ''status/AMT12345678901234'') ''[]'' 1700000000000 = Skip EmptyJsonPayload
   \<and> envelope_field ''data'' (decide (ascii ''status/AMT12345678901234'') ''[]'' 1700000000000)
     \<noteq> Some (JArr [JArr []])"
  by (simp add: handler_eval loads_eval text_eval)




text \<open>
  C5. The claim: \<open>SN\<close> is \<open>AMT\<close> followed by the topic without its leading
  \<open>status/AMT\<close>. Line 81 computes the device id with \<open>topic.replace("status/AMT", "")\<close>,
  which removes every occurrence: for the topic that \<open>on_connect\<close> subscribes for the
  configured device id \<open>1status/AMT2\<close> the handler sends \<open>AMT12\<close>, not
  \<open>AMT1status/AMT2\<close>.
\<close>

theorem sn_loses_inner_prefix:
  "envelope_field ''SN'' (decide (ascii ''status/AMT1status/AMT2'') ''7'' now)
     = Some (JStr (ascii ''AMT12''))
   \<and> envelope_field ''SN'' (decide (ascii ''status/AMT1status/AMT2'') ''7'' now)
     \<noteq> Some (JStr (ascii ''AMT1status/AMT2''))"
  by (simp add: handler_eval loads_eval text_eval)

text \<open>
  Where the rest of the topic has no \<open>s\<close>, as for the numeric device ids the program
  expects, nothing but the leading \<open>status/AMT\<close> is removed.
\<close>

lemma str_replace_absent: "old \<noteq> [] \<Longrightarrow> hd old \<notin> set s \<Longrightarrow> str_replace s old new = s"
proof (induction s)
  case Nil
  then show ?case by (simp add: str_replace.simps)
next
  case (Cons c cs)
  from Cons.prems have "\<not> startswith (c # cs) old"
    by (cases old) (auto simp: startswith_def)
  with Cons show ?case
    by (subst str_replace.simps) simp
qed

lemma str_replace_leading:
  "old \<noteq> [] \<Longrightarrow> str_replace (old @ s) old new = new @ str_replace s old new"
  by (subst str_replace.simps) (simp add: startswith_def)

lemma device_id_of_plain_topic:
  "115 \<notin> set d \<Longrightarrow> str_replace (status_prefix @ d) status_prefix [] = d"
proof -
  assume a: "115 \<notin> set d"
  have "status_prefix \<noteq> []" and "hd status_prefix = 115"
    by (simp_all add: status_prefix_def ascii_def)
  with a show ?thesis
    by (simp add: str_replace_leading str_replace_absent)
qed

lemma sn_of_plain_topic:
  assumes "115 \<notin> set d" and "decide (status_prefix @ d) raw now = Forward env"
  shows "envelope_field ''SN'' (Forward env) = Some (JStr (ascii ''AMT'' @ d))"
proof -
  from assms(2) obtain c where "env = forward_data c (str_replace (status_prefix @ d) status_prefix []) now"
    by (auto simp: decide_def on_message_try_def Let_def split: option.splits if_splits)
  with assms(1) show ?thesis
    by (simp add: device_id_of_plain_topic envelope_SN)
qed



text \<open>
  C7. A payload that is empty or consists of white space only is skipped on every
  topic; on a device topic the payloads \<open>{}\<close> and \<open>null\<close> are skipped. In each case
  nothing is published.
\<close>

theorem empty_payloads_skipped:
  assumes "decode_utf8 raw = Some text"
  shows "((\<forall>c\<in>set text. isspace c) \<longrightarrow> decide tpc raw now = Skip EmptyPayload)
    \<and> (startswith tpc status_prefix \<and> (strip text = ascii ''{}'' \<or> strip text = ascii ''null'')
          \<longrightarrow> decide tpc raw now = Skip EmptyJsonPayload)
    \<and> ((\<forall>c\<in>set text. isspace c) \<or> strip text = ascii ''{}'' \<or> strip text = ascii ''null''
          \<longrightarrow> published (snd (on_message self \<lparr>topic = tpc, payload = raw\<rparr> now rc)) = [])"
proof -
  have p: "json_loads (ascii ''{}'') = Some (JObj [])" "json_loads (ascii ''null'') = Some JNull"
    by (simp_all add: loads_eval text_eval)
  have ne: "ascii ''{}'' \<noteq> []" "ascii ''null'' \<noteq> []"
    by (simp_all add: ascii_def)
  have A: "decide tpc raw now = Skip EmptyPayload" if "\<forall>c\<in>set text. isspace c"
    using that assms by (simp add: decide_empty strip_all_space)
  have B: "decide tpc raw now = Skip EmptyJsonPayload"
    if "startswith tpc status_prefix" "strip text = ascii ''{}'' \<or> strip text = ascii ''null''"
    using that decide_device_topic [OF that(1) assms, of now] p ne by auto
  have C: "decide tpc raw now = Unmatched"
    if "\<not> startswith tpc status_prefix" "strip text = ascii ''{}'' \<or> strip text = ascii ''null''"
    using that decide_other_topic [OF that(1) assms, of now] ne by (auto simp: decide_def)
  have D: "published (snd (on_message self \<lparr>topic = tpc, payload = raw\<rparr> now rc)) = []"
    if "(\<forall>c\<in>set text. isspace c) \<or> strip text = ascii ''{}'' \<or> strip text = ascii ''null''"
    using that A B C by (cases "startswith tpc status_prefix") (auto simp: published_on_message)
  from A B D show ?thesis by blast
qed

theorem empty_payloads_skipped_witness:
  "decide (ascii ''status/AMT12345678901234'') [CHR 0x20, CHR 0x09, CHR 0x0A] 1700000000000
     = Skip EmptyPayload
   \<and> decide (ascii ''status/AMT12345678901234'') [] 1700000000000 = Skip EmptyPayload
   \<and> decide (ascii ''status/AMT12345678901234'') ''{}'' 1700000000000 = Skip EmptyJsonPayload
   \<and> decide (ascii ''status/AMT12345678901234'') ''null'' 1700000000000 = Skip EmptyJsonPayload
   \<and> published (snd (on_message example_forwarder
        \<lparr>topic = ascii ''status/AMT12345678901234'', payload = ''{}''\<rparr> 1700000000000 0)) = []"
proof -
  let ?t = "ascii ''status/AMT12345678901234''"
  have t: "startswith ?t status_prefix"
    by (simp add: text_eval)
  have d1: "decode_utf8 [CHR 0x20, CHR 0x09, CHR 0x0A] = Some [32, 9, 10]"
    and d2: "decode_utf8 [] = Some []"
    and d3: "decode_utf8 ''{}'' = Some (ascii ''{}'')"
    and d4: "decode_utf8 ''null'' = Some (ascii ''null'')"
    by (simp_all add: text_eval)
  have w1: "\<forall>c\<in>set [32, 9, 10]. isspace c" and w2: "\<forall>c\<in>set []. isspace c"
    by (simp_all add: isspace_def)
  have s3: "strip (ascii ''{}'') = ascii ''{}''" and s4: "strip (ascii ''null'') = ascii ''null''"
    by (simp_all add: text_eval)
  from empty_payloads_skipped [OF d1, of ?t 1700000000000] w1
  have 1: "decide ?t [CHR 0x20, CHR 0x09, CHR 0x0A] 1700000000000 = Skip EmptyPayload"
    by blast
  from empty_payloads_skipped [OF d2, of ?t 1700000000000] w2
  have 2: "decide ?t [] 1700000000000 = Skip EmptyPayload"
    by blast
  from empty_payloads_skipped [OF d3, of ?t 1700000000000 example_forwarder 0] t s3
  have 3: "decide ?t ''{}'' 1700000000000 = Skip EmptyJsonPayload"
    and 5: "published (snd (on_message example_forwarder \<lparr>topic = ?t, payload = ''{}''\<rparr>
              1700000000000 0)) = []"
    by blast+
  from empty_payloads_skipped [OF d4, of ?t 1700000000000] t s4
  have 4: "decide ?t ''null'' 1700000000000 = Skip EmptyJsonPayload"
    by blast
  from 1 2 3 4 5 show ?thesis by blast
qed



text \<open>
  C10. A message on a topic that does not start with \<open>status/AMT\<close>, with a payload that
  is valid UTF-8 and not empty after trimming, falls through the handler: no exception
  is raised, nothing is logged or published, and the forwarder is as it was.
\<close>

theorem other_topic_ignored:
  assumes "\<not> startswith (topic msg) status_prefix" and "decode_utf8 (payload msg) = Some text"
    and "strip text \<noteq> []"
  shows "on_message self msg now rc = (self, [])
    \<and> decide (topic msg) (payload msg) now = Unmatched"
  using decide_other_topic [OF assms, of now]
  by (simp add: on_message_def decide_def)

theorem other_topic_ignored_witness:
  \<open>on_message example_forwarder
     \<lparr>topic = ascii ''cmd/AMT12345678901234'', payload = ''{"AI1": 1}''\<rparr> 1700000000000 0
     = (example_forwarder, [])
   \<and> decide (ascii ''cmd/AMT12345678901234'') ''{"AI1": 1}'' 1700000000000 = Unmatched\<close>
proof -
  let ?m = \<open>\<lparr>topic = ascii ''cmd/AMT12345678901234'', payload = ''{"AI1": 1}''\<rparr>\<close>
  have t: "\<not> startswith (topic ?m) status_prefix"
    by (simp add: text_eval)
  have d: \<open>decode_utf8 (payload ?m) = Some (ascii ''{"AI1": 1}'')\<close>
    by (simp add: text_eval)
  have ne: \<open>strip (ascii ''{"AI1": 1}'') \<noteq> []\<close>
    by (simp add: text_eval)
  from other_topic_ignored [OF t d ne, of example_forwarder 1700000000000 0] show ?thesis
    by simp
qed

text \<open>
  The scenario of the specification: the topic \<open>status/AMT12345678901234\<close> with the
  payload \<open>{"AI1": 0.07997}\<close>, received by a connected forwarder.
\<close>

lemma end_to_end_scenario:
  \<open>snd (on_message example_forwarder
          \<lparr>topic = ascii ''status/AMT12345678901234'', payload = ''{"AI1": 0.07997}''\<rparr> now 0)
   = [Log INFO (Received (ascii ''12345678901234'') (ascii ''{"AI1": 0.07997}'')),
      Publish (ascii ''park/data'')
        (JObj [(ascii ''data'',
                JArr [JObj [(ascii ''name'', JStr (ascii ''AI1'')),
                            (ascii ''value'', JFloat (Finite 7997 (- 5)))]]),
               (ascii ''SN'', JStr (ascii ''AMT12345678901234'')),
               (ascii ''Type'', JStr (ascii ''park'')),
               (ascii ''flexem_timestamp'', JInt now)]),
      Log INFO (Forwarded (JStr (ascii ''AMT12345678901234'')) (ascii ''park/data''))]\<close>
  by (simp add: on_message_def forward_message_def example_forwarder_def MQTT_ERR_SUCCESS_def
        handler_eval loads_eval text_eval)

text \<open>
  \<open>on_connect\<close> subscribes, for each configured device id, the topic made of
  \<open>status/AMT\<close> and the id.
\<close>

lemma on_connect_subscribes:
  "d \<in> set (devices (config self)) \<Longrightarrow> Subscribe (status_prefix @ d) \<in> set (snd (on_connect self 0))"
  by (auto simp: on_connect_def)

end
